theory Spec2Isabelle
  imports Complex_Main
begin

section \<open>Requests, responses and handlers\<close>

text \<open>
  The middleware of the book API is written against \<^verbatim>\<open>net/http\<close>: a handler receives a
  response writer and a request, may write headers, a status and a body, may log, and may
  call the handler it wraps. A handler is modelled as a function from the request to the
  list of things it did, in order, together with the way it ended: by returning or by a
  panic that was not recovered.
\<close>

text \<open>
  The values a request context carries are of Go's type \<^verbatim>\<open>any\<close>. The middleware stores an
  \<^verbatim>\<open>int\<close> under \<^verbatim>\<open>UserIDKey\<close> and a \<^verbatim>\<open>string\<close> under \<^verbatim>\<open>UserRoleKey\<close>; every other dynamic
  type is \<open>CtxOther\<close>.
\<close>

datatype ctx_value = CtxInt int | CtxString string | CtxOther

record request =
  Method :: string
  URLPath :: string
  RemoteAddr :: string
  Header :: "string \<rightharpoonup> string"
  URLParams :: "string \<rightharpoonup> string"
  Ctx :: "string \<rightharpoonup> ctx_value"

datatype event =
    LogPrintf string "string list"
  | HeaderSet string string
  | WriteHeader nat
  | EncodeErrorResponse string string
  | LoaderCall int

text \<open>
  A panic carries its value as \<^verbatim>\<open>%v\<close> prints it. For a failed type assertion the model
  keeps the asserted type in that text and not the dynamic type found.
\<close>

datatype completion = Returned | Panicked string

type_synonym result = "event list \<times> completion"

type_synonym handler = "request \<Rightarrow> result"

text \<open>\<^verbatim>\<open>r.Header.Get(name)\<close> and \<^verbatim>\<open>chi.URLParam(r, name)\<close> give the empty string for a missing name.\<close>

definition Header_Get :: "request \<Rightarrow> string \<Rightarrow> string" where
  "Header_Get r name = (case Header r name of None \<Rightarrow> [] | Some v \<Rightarrow> v)"

definition URLParam :: "request \<Rightarrow> string \<Rightarrow> string" where
  "URLParam r name = (case URLParams r name of None \<Rightarrow> [] | Some v \<Rightarrow> v)"

text \<open>
  The status texts of \<^verbatim>\<open>net/http\<close>; \<^verbatim>\<open>http.StatusText\<close> gives the empty string for a code
  it does not know.
\<close>

definition status_texts :: "(nat \<times> string) list" where
  "status_texts =
     [(100, ''Continue''),
      (101, ''Switching Protocols''),
      (102, ''Processing''),
      (103, ''Early Hints''),
      (200, ''OK''),
      (201, ''Created''),
      (202, ''Accepted''),
      (203, ''Non-Authoritative Information''),
      (204, ''No Content''),
      (205, ''Reset Content''),
      (206, ''Partial Content''),
      (207, ''Multi-Status''),
      (208, ''Already Reported''),
      (226, ''IM Used''),
      (300, ''Multiple Choices''),
      (301, ''Moved Permanently''),
      (302, ''Found''),
      (303, ''See Other''),
      (304, ''Not Modified''),
      (305, ''Use Proxy''),
      (307, ''Temporary Redirect''),
      (308, ''Permanent Redirect''),
      (400, ''Bad Request''),
      (401, ''Unauthorized''),
      (402, ''Payment Required''),
      (403, ''Forbidden''),
      (404, ''Not Found''),
      (405, ''Method Not Allowed''),
      (406, ''Not Acceptable''),
      (407, ''Proxy Authentication Required''),
      (408, ''Request Timeout''),
      (409, ''Conflict''),
      (410, ''Gone''),
      (411, ''Length Required''),
      (412, ''Precondition Failed''),
      (413, ''Request Entity Too Large''),
      (414, ''Request URI Too Long''),
      (415, ''Unsupported Media Type''),
      (416, ''Requested Range Not Satisfiable''),
      (417, ''Expectation Failed''),
      (418, ''I'' @ [CHR 0x27] @ ''m a teapot''),
      (421, ''Misdirected Request''),
      (422, ''Unprocessable Entity''),
      (423, ''Locked''),
      (424, ''Failed Dependency''),
      (425, ''Too Early''),
      (426, ''Upgrade Required''),
      (428, ''Precondition Required''),
      (429, ''Too Many Requests''),
      (431, ''Request Header Fields Too Large''),
      (451, ''Unavailable For Legal Reasons''),
      (500, ''Internal Server Error''),
      (501, ''Not Implemented''),
      (502, ''Bad Gateway''),
      (503, ''Service Unavailable''),
      (504, ''Gateway Timeout''),
      (505, ''HTTP Version Not Supported''),
      (506, ''Variant Also Negotiates''),
      (507, ''Insufficient Storage''),
      (508, ''Loop Detected''),
      (510, ''Not Extended''),
      (511, ''Network Authentication Required'')]"

definition StatusText :: "nat \<Rightarrow> string" where
  "StatusText code = (case map_of status_texts code of None \<Rightarrow> [] | Some text \<Rightarrow> text)"

text \<open>\<^verbatim>\<open>utils.WriteSafeError\<close>: content type, status, then the JSON error envelope.\<close>

definition WriteSafeError :: "nat \<Rightarrow> string \<Rightarrow> event list" where
  "WriteSafeError statusCode message =
     [HeaderSet ''Content-Type'' ''application/json'',
      WriteHeader statusCode,
      EncodeErrorResponse (StatusText statusCode) message]"

text \<open>Doing \<open>es\<close> and then running the rest of the handler, whose result is \<open>res\<close>.\<close>

definition after :: "event list \<Rightarrow> result \<Rightarrow> result" where
  "after es res = (es @ fst res, snd res)"

definition UserIDKey :: string where
  "UserIDKey = ''user_id''"

definition UserRoleKey :: string where
  "UserRoleKey = ''user_role''"

section \<open>Decimal integers: \<^verbatim>\<open>strconv.Atoi\<close>\<close>

text \<open>
  \<^verbatim>\<open>strconv.Atoi\<close> of the Go standard library, on a 64-bit platform: an optional sign, then
  at least one decimal digit and nothing else. A syntax error gives 0, a value outside
  \<^verbatim>\<open>int\<close> gives the nearest bound; both come with an error.
\<close>

datatype num_error = ErrSyntax | ErrRange

definition is_digit :: "char \<Rightarrow> bool" where
  "is_digit c = (c \<in> set ''0123456789'')"

definition digit_val :: "char \<Rightarrow> int" where
  "digit_val c = int (of_char c) - 48"

definition digits_val :: "string \<Rightarrow> int" where
  "digits_val ds = foldl (\<lambda>n c. n * 10 + digit_val c) 0 ds"

definition maxInt :: int where
  "maxInt = 9223372036854775807"

definition minInt :: int where
  "minInt = - 9223372036854775808"

definition Atoi :: "string \<Rightarrow> int \<times> num_error option" where
  "Atoi s =
     (case s of
        [] \<Rightarrow> (0, Some ErrSyntax)
      | c # cs \<Rightarrow>
          (let ds = (if c = CHR ''-'' \<or> c = CHR ''+'' then cs else s) in
           if ds = [] \<or> \<not> list_all is_digit ds then (0, Some ErrSyntax)
           else
             (let n = (if c = CHR ''-'' then - digits_val ds else digits_val ds) in
              if maxInt < n then (maxInt, Some ErrRange)
              else if n < minInt then (minInt, Some ErrRange)
              else (n, None))))"

section \<open>Authorization stages\<close>

text \<open>
  An \<^verbatim>\<open>OwnerLoader\<close> is injected by the route: from the request and a resource id it gives
  an owner id and an error, both of which the caller receives, as in Go. Each invocation
  by a stage is recorded as \<open>LoaderCall\<close> with the resource id passed.
\<close>

datatype lookup_error = LookupError string

type_synonym OwnerLoader = "request \<Rightarrow> int \<Rightarrow> int \<times> lookup_error option"

text \<open>
  \<^verbatim>\<open>EnforceOwnership\<close> (ownership.go). The checked assertion \<^verbatim>\<open>userID, ok := ....(int)\<close>
  rejects a context without an \<^verbatim>\<open>int\<close> user id.
\<close>

definition EnforceOwnership :: "string \<Rightarrow> OwnerLoader \<Rightarrow> handler \<Rightarrow> handler" where
  "EnforceOwnership paramName loader nxt r =
     (case Ctx r UserIDKey of
        Some (CtxInt userID) \<Rightarrow>
          (case Atoi (URLParam r paramName) of
             (resourceID, Some e) \<Rightarrow> (WriteSafeError 400 ''Invalid ID'', Returned)
           | (resourceID, None) \<Rightarrow>
               (case loader r resourceID of
                  (ownerID, Some e) \<Rightarrow>
                    (LoaderCall resourceID # WriteSafeError 500 ''Could not verify ownership'', Returned)
                | (ownerID, None) \<Rightarrow>
                    if userID \<noteq> ownerID
                    then (LoaderCall resourceID # WriteSafeError 403 ''Forbidden: not owner'', Returned)
                    else after [LoaderCall resourceID] (nxt r)))
      | _ \<Rightarrow> (WriteSafeError 401 ''Unauthorized'', Returned))"

text \<open>
  \<^verbatim>\<open>AllowOwnerOrRole\<close>. The role is read with a checked assertion whose flag is dropped, so
  a missing role is the empty string. The user id is read with the unchecked assertion
  \<^verbatim>\<open>.(int)\<close>, which panics when the context holds no \<^verbatim>\<open>int\<close> there. The errors of
  \<^verbatim>\<open>strconv.Atoi\<close> and of the loader are dropped and the values they came with are used.
\<close>

definition AllowOwnerOrRole ::
  "string \<Rightarrow> OwnerLoader \<Rightarrow> string \<Rightarrow> string list \<Rightarrow> handler \<Rightarrow> handler" where
  "AllowOwnerOrRole paramName loader roleKey allowedRoles nxt r =
     (let roleSet = set allowedRoles;
          role = (case Ctx r roleKey of Some (CtxString s) \<Rightarrow> s | _ \<Rightarrow> [])
      in case Ctx r UserIDKey of
           Some (CtxInt userID) \<Rightarrow>
             (let idStr = URLParam r paramName;
                  resourceID = fst (Atoi idStr);
                  ownerID = fst (loader r resourceID);
                  isAllowed = (role \<in> roleSet)
              in if userID \<noteq> ownerID \<and> \<not> isAllowed
                 then (LoaderCall resourceID # WriteSafeError 403 ''Forbidden'', Returned)
                 else after [LoaderCall resourceID] (nxt r))
         | Some v \<Rightarrow> ([], Panicked ''interface conversion: interface {} is not int'')
         | None \<Rightarrow> ([], Panicked ''interface conversion: interface {} is nil, not int''))"

section \<open>Session tokens and the authentication stage\<close>

text \<open>
  Token claims decoded from JSON into \<^verbatim>\<open>map[string]interface{}\<close>: a number is a
  \<^verbatim>\<open>float64\<close> (every finite one is a rational), a string is a \<^verbatim>\<open>string\<close>; booleans, null,
  arrays and objects are \<open>JSONOther\<close>.
\<close>

datatype json_value = JSONNumber rat | JSONString string | JSONOther

datatype jwt_error = ErrInvalidKey | ErrToken string

datatype jwt_claims = MapClaims "string \<rightharpoonup> json_value" | OtherClaims

record jwt_token =
  Valid :: bool
  Claims :: jwt_claims

text \<open>
  \<^verbatim>\<open>jwt.Parse\<close> belongs to the library \<^verbatim>\<open>golang-jwt\<close>, which checks the signature against
  the key and the expiry against the clock. It is a parameter of the model: from the token
  string and the key it gives a token and an error, as the Go function does.
\<close>

type_synonym jwt_Parse = "string \<Rightarrow> string \<Rightarrow> jwt_token \<times> jwt_error option"

text \<open>\<^verbatim>\<open>strings.ReplaceAll(tokenStr, " ", "")\<close>, \<^verbatim>\<open>strings.HasPrefix\<close> and \<^verbatim>\<open>strings.TrimPrefix\<close>.\<close>

definition ReplaceAll_space :: "string \<Rightarrow> string" where
  "ReplaceAll_space s = filter (\<lambda>c. c \<noteq> CHR '' '') s"

definition HasPrefix :: "string \<Rightarrow> string \<Rightarrow> bool" where
  "HasPrefix s p = (take (length p) s = p)"

definition TrimPrefix :: "string \<Rightarrow> string \<Rightarrow> string" where
  "TrimPrefix s p = (if HasPrefix s p then drop (length p) s else s)"

text \<open>
  \<^verbatim>\<open>ParseToken\<close> (jwt.go) returns a claims map and an error. A token without error that is
  not valid gives neither (\<^verbatim>\<open>return nil, err\<close> with \<^verbatim>\<open>err == nil\<close>).
\<close>

definition ParseToken ::
  "jwt_Parse \<Rightarrow> string \<Rightarrow> string \<Rightarrow> (string \<rightharpoonup> json_value) option \<times> jwt_error option" where
  "ParseToken parse tokenStr secret =
     (case parse (ReplaceAll_space tokenStr) secret of
        (token, Some err) \<Rightarrow> (None, Some err)
      | (token, None) \<Rightarrow>
          if \<not> Valid token then (None, None)
          else (case Claims token of
                  MapClaims claims \<Rightarrow> (Some claims, None)
                | OtherClaims \<Rightarrow> (None, Some ErrInvalidKey)))"

text \<open>Reading a key of a Go map that may be \<^verbatim>\<open>nil\<close>: a nil map has no keys.\<close>

definition claims_get :: "(string \<rightharpoonup> json_value) option \<Rightarrow> string \<Rightarrow> json_value option" where
  "claims_get claims k = (case claims of None \<Rightarrow> None | Some m \<Rightarrow> m k)"

text \<open>
  The conversion \<^verbatim>\<open>int(f)\<close> of a \<^verbatim>\<open>float64\<close> drops the fraction. Go leaves the result open
  when the value does not fit \<^verbatim>\<open>int\<close>; the model takes the smallest \<^verbatim>\<open>int\<close> there, as amd64
  does.
\<close>

definition float64_to_int :: "rat \<Rightarrow> int" where
  "float64_to_int f =
     (let t = (if 0 \<le> f then \<lfloor>f\<rfloor> else \<lceil>f\<rceil>)
      in if minInt \<le> t \<and> t \<le> maxInt then t else minInt)"

text \<open>
  \<^verbatim>\<open>JWTAuth\<close> (jwt_auth.go). The two conversions at step 5 are unchecked type assertions:
  \<^verbatim>\<open>userIDRaw.(float64)\<close> first, \<^verbatim>\<open>userRoleRaw.(string)\<close> second.
\<close>

definition JWTAuth :: "jwt_Parse \<Rightarrow> string \<Rightarrow> handler \<Rightarrow> handler" where
  "JWTAuth parse secret nxt r =
     (let auth = Header_Get r ''Authorization'' in
      if auth = [] \<or> \<not> HasPrefix auth ''Bearer''
      then (WriteSafeError 401 ''Unauthorized'', Returned)
      else
        (let tokenStr = TrimPrefix auth ''Bearer'' in
         case ParseToken parse tokenStr secret of
           (claims, Some err) \<Rightarrow> (WriteSafeError 401 ''Invalid or expired token.'', Returned)
         | (claims, None) \<Rightarrow>
             (case claims_get claims ''user_id'' of
                None \<Rightarrow> (WriteSafeError 401 ''Missing user_id in token.'', Returned)
              | Some userIDRaw \<Rightarrow>
                  (case claims_get claims ''user_role'' of
                     None \<Rightarrow> (WriteSafeError 401 ''Missing user_role in token.'', Returned)
                   | Some userRoleRaw \<Rightarrow>
                       (case userIDRaw of
                          JSONNumber f \<Rightarrow>
                            (case userRoleRaw of
                               JSONString userRole \<Rightarrow>
                                 nxt (r\<lparr>Ctx := (Ctx r)(UserIDKey \<mapsto> CtxInt (float64_to_int f),
                                                         UserRoleKey \<mapsto> CtxString userRole)\<rparr>)
                             | _ \<Rightarrow> ([], Panicked ''interface conversion: interface {} is not string''))
                        | _ \<Rightarrow> ([], Panicked ''interface conversion: interface {} is not float64''))))))"

section \<open>Issuing and verifying tokens\<close>

text \<open>
  \<^verbatim>\<open>GenerateToken\<close> and \<^verbatim>\<open>ParseToken\<close> (jwt.go) hand the work to the library \<^verbatim>\<open>golang-jwt\<close>
  (version 5), which writes the claims with \<^verbatim>\<open>encoding/json\<close> and signs with HMAC-SHA256.
  This section models what the documentation of these libraries says of a token signed
  with HS256: how the claims are written and read back, how the key enters the signature,
  and which claims are checked against the clock.
\<close>

unbundle bit_operations_syntax
































section \<open>Rate limiter\<close>

text \<open>
  Instants and durations are counts of nanoseconds. \<^verbatim>\<open>time.Since\<close> gives a
  \<^verbatim>\<open>time.Duration\<close>, a 64-bit count that saturates. \<^verbatim>\<open>Count\<close> is a Go \<^verbatim>\<open>int\<close>, which wraps.
\<close>

record rateLimitEntry =
  LastSeen :: int
  Count :: int

type_synonym visitors = "string \<rightharpoonup> rateLimitEntry"

definition limitWindow :: int where
  "limitWindow = 60000000000"

definition requestCap :: int where
  "requestCap = 60"

definition time_Since :: "int \<Rightarrow> int \<Rightarrow> int" where
  "time_Since now t = max minInt (min maxInt (now - t))"

definition wrap_int :: "int \<Rightarrow> int" where
  "wrap_int x = (x + 9223372036854775808) mod 18446744073709551616 - 9223372036854775808"

text \<open>
  \<^verbatim>\<open>RateLimit\<close> (ratelimit.go) for one request, run without interleaving. The handler reads
  the clock twice: \<open>t_since\<close> is the reading of \<^verbatim>\<open>time.Since\<close>, \<open>t_now\<close> the later one of
  \<^verbatim>\<open>time.Now()\<close> stored as \<^verbatim>\<open>LastSeen\<close>. The table \<^verbatim>\<open>visitors\<close> is the state.
\<close>

definition RateLimit :: "handler \<Rightarrow> int \<Rightarrow> int \<Rightarrow> request \<Rightarrow> visitors \<Rightarrow> visitors \<times> result" where
  "RateLimit nxt t_since t_now r vs =
     (let ip = RemoteAddr r in
      case vs ip of
        None \<Rightarrow> (vs(ip \<mapsto> \<lparr>LastSeen = t_now, Count = 1\<rparr>), nxt r)
      | Some entry \<Rightarrow>
          if limitWindow < time_Since t_since (LastSeen entry)
          then (vs(ip \<mapsto> \<lparr>LastSeen = t_now, Count = 1\<rparr>), nxt r)
          else
            (let entry' = entry\<lparr>Count := wrap_int (Count entry + 1), LastSeen := t_now\<rparr> in
             (vs(ip \<mapsto> entry'),
              if requestCap < Count entry'
              then (WriteSafeError 429 ''Rate limit exceeded'', Returned)
              else nxt r)))"

text \<open>A client's requests served one after the other, each with its two clock readings.\<close>

fun RateLimit_all ::
  "handler \<Rightarrow> (int \<times> int \<times> request) list \<Rightarrow> visitors \<Rightarrow> visitors \<times> result list" where
  "RateLimit_all nxt [] vs = (vs, [])"
| "RateLimit_all nxt ((t_since, t_now, r) # rest) vs =
     (let (vs', res) = RateLimit nxt t_since t_now r vs;
          (vs'', ress) = RateLimit_all nxt rest vs'
      in (vs'', res # ress))"

text \<open>
  The requests \<open>reqs\<close> come from the client \<open>ip\<close> and fall in the window that opened at
  \<open>t0\<close>: no clock reading is before \<open>t0\<close> or later than \<open>t0 + limitWindow\<close>.
\<close>

definition in_window :: "string \<Rightarrow> int \<Rightarrow> (int \<times> int \<times> request) list \<Rightarrow> bool" where
  "in_window ip t0 reqs =
     list_all (\<lambda>(t_since, t_now, r).
        RemoteAddr r = ip \<and> t0 \<le> t_since \<and> t_since \<le> t_now \<and> t_now \<le> t0 + limitWindow) reqs"

section \<open>Transactional transfer\<close>

text \<open>
  The table \<^verbatim>\<open>books\<close> as far as \<^verbatim>\<open>TransferPages\<close> touches it: the column \<^verbatim>\<open>pages\<close> by \<^verbatim>\<open>id\<close>.
  Whether the store refuses a statement (a constraint, a value out of range, a lost
  connection) is the store's decision and an input of the model, one per call made to it.
\<close>

record TransferRequest =
  FromID :: int
  ToID :: int
  Pages :: int

type_synonym books = "int \<rightharpoonup> int"

datatype db_error = DBError string

record store_faults =
  Begin_err :: "db_error option"
  Exec1_err :: "db_error option"
  Exec2_err :: "db_error option"
  Commit_err :: "db_error option"

text \<open>\<^verbatim>\<open>UPDATE books SET pages = pages + d WHERE id = i\<close>: no row with that id, no change, no error.\<close>

definition update_pages :: "books \<Rightarrow> int \<Rightarrow> int \<Rightarrow> books" where
  "update_pages tbl d i = (case tbl i of None \<Rightarrow> tbl | Some p \<Rightarrow> tbl(i \<mapsto> p + d))"

text \<open>
  The deferred function of \<^verbatim>\<open>TransferPages\<close>, which ends the transaction on every return:
  with the table \<open>before\<close> the call, the table \<open>tx\<close> as the statements of the transaction
  left it, and the local \<^verbatim>\<open>err\<close>. When \<^verbatim>\<open>err\<close> is set it rolls back, and the table is the
  one before the call. Otherwise it commits; a commit that the store refuses applies
  nothing.
\<close>

definition resolve_tx :: "store_faults \<Rightarrow> books \<Rightarrow> books \<Rightarrow> db_error option \<Rightarrow> books" where
  "resolve_tx f before tx err =
     (case err of
        Some e \<Rightarrow> before
      | None \<Rightarrow> (case Commit_err f of Some e \<Rightarrow> before | None \<Rightarrow> tx))"

text \<open>
  \<^verbatim>\<open>TransferPages\<close> (book_repository.go) gives the table after the call and the error
  returned. The result of the Go function is unnamed: \<^verbatim>\<open>return err\<close> and \<^verbatim>\<open>return nil\<close> set
  it before the deferred function runs, and the assignment \<^verbatim>\<open>err = tx.Commit()\<close> in the
  deferred function changes the local variable only. So what is returned after two updates
  that went through is \<^verbatim>\<open>nil\<close>, whatever the commit did.
\<close>

definition TransferPages :: "store_faults \<Rightarrow> books \<Rightarrow> TransferRequest \<Rightarrow> books \<times> db_error option" where
  "TransferPages f db req =
     (case Begin_err f of
        Some e \<Rightarrow> (db, Some e)
      | None \<Rightarrow>
          (case Exec1_err f of
             Some e \<Rightarrow> (resolve_tx f db db (Some e), Some e)
           | None \<Rightarrow>
               (let tx1 = update_pages db (- Pages req) (FromID req) in
                case Exec2_err f of
                  Some e \<Rightarrow> (resolve_tx f db tx1 (Some e), Some e)
                | None \<Rightarrow>
                    (let tx2 = update_pages tx1 (Pages req) (ToID req) in
                     (resolve_tx f db tx2 None, None)))))"

text \<open>\<^verbatim>\<open>validateTransferRequest\<close> (book_service.go): what the service takes as a valid transfer.\<close>

definition validateTransferRequest :: "TransferRequest \<Rightarrow> string option" where
  "validateTransferRequest req =
     (if FromID req \<le> 0 then Some ''Sender Book ID is invalid''
      else if ToID req \<le> 0 then Some ''Receiver Book ID is invalid''
      else if Pages req < 0 then Some ''Pages must be greater or equal to 0''
      else None)"

definition no_faults :: store_faults where
  "no_faults = \<lparr>Begin_err = None, Exec1_err = None, Exec2_err = None, Commit_err = None\<rparr>"

section \<open>Middleware composer\<close>

type_synonym middleware = "handler \<Rightarrow> handler"

text \<open>
  The four stages of the default chain (common.go). The duration that
  \<^verbatim>\<open>requestLoggingMiddleware\<close> prints is a clock difference and is left out of the logged
  arguments. A panic of the wrapped handler passes through every stage but
  \<^verbatim>\<open>recoveryMiddleware\<close>, skipping what the stage does after the call.
\<close>

definition requestLoggingMiddleware :: middleware where
  "requestLoggingMiddleware nxt r =
     (let started = LogPrintf ''Started HTTP Request %s %s'' [Method r, URLPath r];
          res = nxt r
      in case snd res of
           Returned \<Rightarrow>
             (started # fst res
                @ [LogPrintf (''Completed %s %s in %v '' @ [CHR 0x0A, CHR 0x0A]) [Method r, URLPath r]],
              Returned)
         | Panicked p \<Rightarrow> (started # fst res, Panicked p))"

definition recoveryMiddleware :: middleware where
  "recoveryMiddleware nxt r =
     (let res = nxt r
      in case snd res of
           Returned \<Rightarrow> res
         | Panicked p \<Rightarrow>
             (fst res @ LogPrintf ''Recovered from panic: %v'' [p]
                # WriteSafeError 500 ''Internal Server Error'', Returned))"

definition corsMiddleware :: middleware where
  "corsMiddleware nxt r =
     (let hs = [HeaderSet ''Access-Control-Allow-Origin'' ''*'',
                HeaderSet ''Access-Control-Allow-Methods'' ''GET, POST, PUT, DELETE, OPTIONS'',
                HeaderSet ''Access-Control-Allow-Headers'' ''Content-Type'']
      in if Method r = ''OPTIONS'' then (hs @ [WriteHeader 204], Returned)
         else after hs (nxt r))"

definition userAgentLogMiddleware :: middleware where
  "userAgentLogMiddleware nxt r =
     after [LogPrintf ''User-Agent: %s'' [Header_Get r ''User-Agent'']] (nxt r)"

text \<open>
  \<^verbatim>\<open>applyMiddleware\<close>: the loop runs \<^verbatim>\<open>i\<close> from \<^verbatim>\<open>len(middlewares) - 1\<close> down to 0 and
  replaces \<^verbatim>\<open>h\<close> by \<^verbatim>\<open>middlewares[i](h)\<close>. The counter of the model is \<open>i + 1\<close>.
\<close>

fun applyMiddleware_loop :: "handler \<Rightarrow> middleware list \<Rightarrow> nat \<Rightarrow> handler" where
  "applyMiddleware_loop h middlewares 0 = h"
| "applyMiddleware_loop h middlewares (Suc i) = applyMiddleware_loop ((middlewares ! i) h) middlewares i"

definition applyMiddleware :: "handler \<Rightarrow> middleware list \<Rightarrow> handler" where
  "applyMiddleware h middlewares = applyMiddleware_loop h middlewares (length middlewares)"

definition Apply :: "handler \<Rightarrow> handler" where
  "Apply h =
     applyMiddleware h
       [requestLoggingMiddleware, recoveryMiddleware, corsMiddleware, userAgentLogMiddleware]"

section \<open>Sample requests and collaborators\<close>

text \<open>Concrete inputs on which the theorems below are instantiated.\<close>

definition anonymous_request :: request where
  "anonymous_request =
     \<lparr>Method = ''PUT'', URLPath = ''/books/7'', RemoteAddr = ''10.0.0.1:5000'',
      Header = Map.empty, URLParams = [''id'' \<mapsto> ''7''], Ctx = Map.empty\<rparr>"

definition request_of :: "int \<Rightarrow> string \<Rightarrow> request" where
  "request_of uid role =
     anonymous_request\<lparr>Ctx := [UserIDKey \<mapsto> CtxInt uid, UserRoleKey \<mapsto> CtxString role]\<rparr>"

definition ok_handler :: handler where
  "ok_handler r = ([WriteHeader 200], Returned)"

definition owner_is :: "int \<Rightarrow> OwnerLoader" where
  "owner_is uid r resourceID = (uid, None)"

definition owner_unknown :: OwnerLoader where
  "owner_unknown r resourceID = (0, Some (LookupError ''sql: no rows in result set''))"

text \<open>
  A token verifier that accepts exactly the token \<open>tok\<close> under the key \<open>key\<close> and decodes
  it to \<open>claims\<close>; a request whose only header is \<^verbatim>\<open>Authorization\<close>.
\<close>

definition accepts_only :: "string \<Rightarrow> string \<Rightarrow> (string \<rightharpoonup> json_value) \<Rightarrow> jwt_Parse" where
  "accepts_only tok key claims t k =
     (if t = tok \<and> k = key then (\<lparr>Valid = True, Claims = MapClaims claims\<rparr>, None)
      else (\<lparr>Valid = False, Claims = MapClaims Map.empty\<rparr>, Some (ErrToken ''token is malformed'')))"

definition bearer_request :: "string \<Rightarrow> request" where
  "bearer_request auth = anonymous_request\<lparr>Header := [''Authorization'' \<mapsto> auth]\<rparr>"

definition sample_claims :: "string \<rightharpoonup> json_value" where
  "sample_claims = [''user_id'' \<mapsto> JSONNumber 42, ''user_role'' \<mapsto> JSONString ''user'']"

text \<open>
  A table of two books, a transfer between them, a transfer from a book that is not in the
  table, a store that refuses the second update and a store that refuses the commit.
\<close>

definition sample_books :: books where
  "sample_books = [1 \<mapsto> 100, 2 \<mapsto> 50]"

definition sample_transfer :: TransferRequest where
  "sample_transfer = \<lparr>FromID = 1, ToID = 2, Pages = 30\<rparr>"

definition missing_source_transfer :: TransferRequest where
  "missing_source_transfer = \<lparr>FromID = 9, ToID = 2, Pages = 30\<rparr>"

definition commit_fault :: store_faults where
  "commit_fault = no_faults\<lparr>Commit_err := Some (DBError ''connection reset'')\<rparr>"

definition destination_fault :: store_faults where
  "destination_fault = no_faults\<lparr>Exec2_err := Some (DBError ''connection reset'')\<rparr>"

text \<open>The rejection of the rate limiter.\<close>

definition too_many :: result where
  "too_many = (WriteSafeError 429 ''Rate limit exceeded'', Returned)"

text \<open>
  A stage that logs its name when it is entered and again when the handler it wraps has
  returned, to observe the order in which composed stages run.
\<close>

definition marking_stage :: "string \<Rightarrow> middleware" where
  "marking_stage name nxt r =
     (let res = nxt r
      in case snd res of
           Returned \<Rightarrow> (LogPrintf ''in'' [name] # fst res @ [LogPrintf ''out'' [name]], Returned)
         | Panicked p \<Rightarrow> (LogPrintf ''in'' [name] # fst res, Panicked p))"






section \<open>Facts about the samples\<close>

lemma request_of_identity: "Ctx (request_of uid role) UserIDKey = Some (CtxInt uid)"
  by (simp add: request_of_def anonymous_request_def UserIDKey_def UserRoleKey_def)

lemma request_of_role: "Ctx (request_of uid role) UserRoleKey = Some (CtxString role)"
  by (simp add: request_of_def anonymous_request_def UserIDKey_def UserRoleKey_def)

lemma Atoi_7: "Atoi ''7'' = (7, None)"
  by (simp add: Atoi_def is_digit_def digits_val_def digit_val_def maxInt_def minInt_def)

lemma request_of_id_param: "Atoi (URLParam (request_of uid role) ''id'') = (7, None)"
  by (simp add: request_of_def anonymous_request_def URLParam_def Atoi_7)

section \<open>Missing identity\<close>

text \<open>
  C9. When the request context holds no \<^verbatim>\<open>int\<close> under \<^verbatim>\<open>UserIDKey\<close>,
  \<^verbatim>\<open>AllowOwnerOrRole\<close> ends in a panic having written nothing (no 401, no 403, and the next
  handler does not run), whereas \<^verbatim>\<open>EnforceOwnership\<close> returns normally after writing
  401 \<^verbatim>\<open>Unauthorized\<close>, and does not run the next handler either.
\<close>

theorem missing_identity_panic_vs_401:
  assumes "\<forall>n. Ctx r UserIDKey \<noteq> Some (CtxInt n)"
  shows "(\<exists>msg. AllowOwnerOrRole paramName loader roleKey allowedRoles nxt r = ([], Panicked msg))
       \<and> EnforceOwnership paramName' loader' nxt' r
           = ([HeaderSet ''Content-Type'' ''application/json'', WriteHeader 401,
               EncodeErrorResponse ''Unauthorized'' ''Unauthorized''], Returned)"
proof -
  have a: "\<exists>msg. AllowOwnerOrRole paramName loader roleKey allowedRoles nxt r = ([], Panicked msg)"
  proof (cases "Ctx r UserIDKey")
    case None
    then show ?thesis by (simp add: AllowOwnerOrRole_def)
  next
    case (Some v)
    with assms show ?thesis
      by (cases v) (simp_all add: AllowOwnerOrRole_def)
  qed
  have b: "EnforceOwnership paramName' loader' nxt' r = (WriteSafeError 401 ''Unauthorized'', Returned)"
  proof (cases "Ctx r UserIDKey")
    case None
    then show ?thesis by (simp add: EnforceOwnership_def)
  next
    case (Some v)
    with assms show ?thesis
      by (cases v) (simp_all add: EnforceOwnership_def)
  qed
  from a b show ?thesis
    by (simp add: WriteSafeError_def StatusText_def status_texts_def)
qed

theorem missing_identity_panic_vs_401_witness:
  "(\<forall>n. Ctx anonymous_request UserIDKey \<noteq> Some (CtxInt n))
   \<and> (\<exists>msg. AllowOwnerOrRole ''id'' (owner_is 1) UserRoleKey [''admin''] ok_handler anonymous_request
          = ([], Panicked msg))
   \<and> EnforceOwnership ''id'' (owner_is 1) ok_handler anonymous_request
       = ([HeaderSet ''Content-Type'' ''application/json'', WriteHeader 401,
           EncodeErrorResponse ''Unauthorized'' ''Unauthorized''], Returned)"
proof -
  have h: "\<forall>n. Ctx anonymous_request UserIDKey \<noteq> Some (CtxInt n)"
    by (simp add: anonymous_request_def)
  from missing_identity_panic_vs_401 [OF h] h show ?thesis
    by blast
qed

section \<open>Ownership policy\<close>

lemma EnforceOwnership_owner:
  assumes "Ctx r UserIDKey = Some (CtxInt userID)"
    and "Atoi (URLParam r paramName) = (rid, None)"
    and "loader r rid = (ownerID, None)"
  shows "EnforceOwnership paramName loader nxt r =
           (if userID = ownerID then after [LoaderCall rid] (nxt r)
            else (LoaderCall rid # WriteSafeError 403 ''Forbidden: not owner'', Returned))"
  using assms by (simp add: EnforceOwnership_def)

lemma EnforceOwnership_lookup_failed:
  assumes "Ctx r UserIDKey = Some (CtxInt userID)"
    and "Atoi (URLParam r paramName) = (rid, None)"
    and "loader r rid = (ownerID, Some e)"
  shows "EnforceOwnership paramName loader nxt r =
           (LoaderCall rid # WriteSafeError 500 ''Could not verify ownership'', Returned)"
  using assms by (simp add: EnforceOwnership_def)

lemma EnforceOwnership_invalid_id:
  assumes "Ctx r UserIDKey = Some (CtxInt userID)"
    and "Atoi (URLParam r paramName) = (rid, Some e)"
  shows "EnforceOwnership paramName loader nxt r = (WriteSafeError 400 ''Invalid ID'', Returned)"
  using assms by (simp add: EnforceOwnership_def)

text \<open>
  With \<open>ok_handler\<close> downstream, the status 200 in the response tells that the downstream
  handler ran: no rejection of \<^verbatim>\<open>EnforceOwnership\<close> writes it.
\<close>

lemma EnforceOwnership_probe:
  assumes auth: "Ctx r UserIDKey = Some (CtxInt userID)"
  shows "WriteHeader 200 \<in> set (fst (EnforceOwnership paramName loader ok_handler r))
         \<longleftrightarrow> (\<exists>rid. Atoi (URLParam r paramName) = (rid, None) \<and> loader r rid = (userID, None))"
proof -
  obtain rid ae where a: "Atoi (URLParam r paramName) = (rid, ae)"
    by (cases "Atoi (URLParam r paramName)")
  obtain ownerID le where l: "loader r rid = (ownerID, le)"
    by (cases "loader r rid")
  show ?thesis
  proof (cases ae)
    case (Some e)
    with a auth show ?thesis
      by (simp add: EnforceOwnership_invalid_id WriteSafeError_def)
  next
    case None
    note an = None
    show ?thesis
    proof (cases le)
      case (Some e)
      with a an l auth show ?thesis
        by (simp add: EnforceOwnership_lookup_failed WriteSafeError_def)
    next
      case None
      with a an l auth show ?thesis
        by (simp add: EnforceOwnership_owner WriteSafeError_def after_def ok_handler_def)
    qed
  qed
qed

text \<open>
  C6. For a request that carries an authenticated subject id, \<^verbatim>\<open>EnforceOwnership\<close> passes
  control to the next handler if and only if the owner lookup, called with the resource id
  of the route, returns without error an owner id equal to the subject id. When the lookup
  returns another owner id the response is 403 \<^verbatim>\<open>Forbidden: not owner\<close>; when it returns an
  error the response is 500 \<^verbatim>\<open>Could not verify ownership\<close>; in both rejections the result
  does not depend on the next handler, which does not run. (A route parameter that is not
  an integer is answered 400 before any lookup, and the next handler does not run either.)
\<close>

theorem EnforceOwnership_admits_owner_only:
  assumes auth: "Ctx r UserIDKey = Some (CtxInt userID)"
  shows "(WriteHeader 200 \<in> set (fst (EnforceOwnership paramName loader ok_handler r))
            \<longleftrightarrow> (\<exists>rid. Atoi (URLParam r paramName) = (rid, None) \<and> loader r rid = (userID, None)))
       \<and> (\<forall>rid ownerID. Atoi (URLParam r paramName) = (rid, None) \<and> loader r rid = (ownerID, None)
            \<longrightarrow> EnforceOwnership paramName loader nxt r =
                  (if userID = ownerID then after [LoaderCall rid] (nxt r)
                   else ([LoaderCall rid, HeaderSet ''Content-Type'' ''application/json'', WriteHeader 403,
                          EncodeErrorResponse ''Forbidden'' ''Forbidden: not owner''], Returned)))
       \<and> (\<forall>rid ownerID e. Atoi (URLParam r paramName) = (rid, None) \<and> loader r rid = (ownerID, Some e)
            \<longrightarrow> EnforceOwnership paramName loader nxt r =
                  ([LoaderCall rid, HeaderSet ''Content-Type'' ''application/json'', WriteHeader 500,
                    EncodeErrorResponse ''Internal Server Error'' ''Could not verify ownership''], Returned))"
  using EnforceOwnership_probe [OF auth] EnforceOwnership_owner [OF auth]
    EnforceOwnership_lookup_failed [OF auth]
  by (simp add: WriteSafeError_def StatusText_def status_texts_def)

theorem EnforceOwnership_admits_owner_only_witness:
  "Ctx (request_of 2 ''user'') UserIDKey = Some (CtxInt 2)
   \<and> WriteHeader 200 \<in> set (fst (EnforceOwnership ''id'' (owner_is 2) ok_handler (request_of 2 ''user'')))
   \<and> EnforceOwnership ''id'' (owner_is 2) ok_handler (request_of 2 ''user'')
       = ([LoaderCall 7, WriteHeader 200], Returned)
   \<and> EnforceOwnership ''id'' (owner_is 1) ok_handler (request_of 2 ''user'')
       = ([LoaderCall 7, HeaderSet ''Content-Type'' ''application/json'', WriteHeader 403,
           EncodeErrorResponse ''Forbidden'' ''Forbidden: not owner''], Returned)
   \<and> EnforceOwnership ''id'' owner_unknown ok_handler (request_of 2 ''user'')
       = ([LoaderCall 7, HeaderSet ''Content-Type'' ''application/json'', WriteHeader 500,
           EncodeErrorResponse ''Internal Server Error'' ''Could not verify ownership''], Returned)"
proof -
  have h: "Ctx (request_of 2 ''user'') UserIDKey = Some (CtxInt 2)"
    by (rule request_of_identity)
  show ?thesis
    using h
      EnforceOwnership_admits_owner_only [OF h, of "''id''" "owner_is 2" ok_handler]
      EnforceOwnership_admits_owner_only [OF h, of "''id''" "owner_is 1" ok_handler]
      EnforceOwnership_admits_owner_only [OF h, of "''id''" owner_unknown ok_handler]
    by (simp add: request_of_id_param owner_is_def owner_unknown_def after_def ok_handler_def)
qed

section \<open>Combined policy\<close>

lemma AllowOwnerOrRole_eq:
  assumes "Ctx r UserIDKey = Some (CtxInt userID)"
    and "Ctx r roleKey = Some (CtxString role)"
  shows "AllowOwnerOrRole paramName loader roleKey allowedRoles nxt r =
           (if userID = fst (loader r (fst (Atoi (URLParam r paramName)))) \<or> role \<in> set allowedRoles
            then after [LoaderCall (fst (Atoi (URLParam r paramName)))] (nxt r)
            else (LoaderCall (fst (Atoi (URLParam r paramName))) # WriteSafeError 403 ''Forbidden'', Returned))"
  using assms by (simp add: AllowOwnerOrRole_def Let_def)

text \<open>
  C4, as stated, fails: the claim has the owner lookup skipped whenever the role of the
  request is in the allowed set. Here the role \<^verbatim>\<open>admin\<close> is allowed, the request is admitted,
  and the lookup was invoked all the same, for resource 7.
\<close>

theorem AllowOwnerOrRole_calls_loader_for_allowed_role:
  "Ctx (request_of 1 ''admin'') UserRoleKey = Some (CtxString ''admin'')
   \<and> ''admin'' \<in> set [''admin'']
   \<and> AllowOwnerOrRole ''id'' (owner_is 2) UserRoleKey [''admin''] ok_handler (request_of 1 ''admin'')
       = ([LoaderCall 7, WriteHeader 200], Returned)"
  by (simp add: AllowOwnerOrRole_eq [OF request_of_identity request_of_role] request_of_role
      request_of_id_param after_def ok_handler_def)

text \<open>
  C4, amended. For a request that carries an integer user id and a role,
  \<^verbatim>\<open>AllowOwnerOrRole\<close> invokes the injected owner lookup on every request, before the decision
  and whatever the role (there is no short-circuit). The request is admitted if its role is
  in the allowed set, or if the route id is an integer and the lookup returns without error
  an owner id equal to the user id. It is rejected with 403 \<^verbatim>\<open>Forbidden\<close>, the next handler
  not running, if the role is not in the allowed set and the owner id that came back from
  the lookup differs from the user id.
\<close>

theorem AllowOwnerOrRole_role_or_owner:
  assumes uid: "Ctx r UserIDKey = Some (CtxInt userID)"
    and role: "Ctx r roleKey = Some (CtxString role)"
    and rid: "Atoi (URLParam r paramName) = (rid, aerr)"
  shows "hd (fst (AllowOwnerOrRole paramName loader roleKey allowedRoles nxt r)) = LoaderCall rid
       \<and> (role \<in> set allowedRoles \<or> (aerr = None \<and> loader r rid = (userID, None))
            \<longrightarrow> AllowOwnerOrRole paramName loader roleKey allowedRoles nxt r
                  = after [LoaderCall rid] (nxt r))
       \<and> (role \<notin> set allowedRoles \<and> userID \<noteq> fst (loader r rid)
            \<longrightarrow> AllowOwnerOrRole paramName loader roleKey allowedRoles nxt r
                  = ([LoaderCall rid, HeaderSet ''Content-Type'' ''application/json'', WriteHeader 403,
                      EncodeErrorResponse ''Forbidden'' ''Forbidden''], Returned))"
  unfolding AllowOwnerOrRole_eq [OF uid role] rid
  by (auto simp add: WriteSafeError_def StatusText_def status_texts_def after_def)

theorem AllowOwnerOrRole_role_or_owner_witness:
  "Ctx (request_of 1 ''user'') UserIDKey = Some (CtxInt 1)
   \<and> Ctx (request_of 1 ''user'') UserRoleKey = Some (CtxString ''user'')
   \<and> Atoi (URLParam (request_of 1 ''user'') ''id'') = (7, None)
   \<and> owner_is 1 (request_of 1 ''user'') 7 = (1, None)
   \<and> AllowOwnerOrRole ''id'' (owner_is 1) UserRoleKey [''admin''] ok_handler (request_of 1 ''user'')
       = ([LoaderCall 7, WriteHeader 200], Returned)
   \<and> ''user'' \<notin> set [''admin''] \<and> 1 \<noteq> fst (owner_is 2 (request_of 1 ''user'') 7)
   \<and> AllowOwnerOrRole ''id'' (owner_is 2) UserRoleKey [''admin''] ok_handler (request_of 1 ''user'')
       = ([LoaderCall 7, HeaderSet ''Content-Type'' ''application/json'', WriteHeader 403,
           EncodeErrorResponse ''Forbidden'' ''Forbidden''], Returned)"
proof -
  have u: "Ctx (request_of 1 ''user'') UserIDKey = Some (CtxInt 1)"
    by (rule request_of_identity)
  have ro: "Ctx (request_of 1 ''user'') UserRoleKey = Some (CtxString ''user'')"
    by (rule request_of_role)
  have ri: "Atoi (URLParam (request_of 1 ''user'') ''id'') = (7, None)"
    by (rule request_of_id_param)
  show ?thesis
    using u ro ri
      AllowOwnerOrRole_role_or_owner [OF u ro ri, of "owner_is 1" "[''admin'']" ok_handler]
      AllowOwnerOrRole_role_or_owner [OF u ro ri, of "owner_is 2" "[''admin'']" ok_handler]
    by (simp add: owner_is_def after_def ok_handler_def)
qed

section \<open>Authentication stage\<close>

lemma Header_Get_bearer: "Header_Get (bearer_request auth) ''Authorization'' = auth"
  by (simp add: Header_Get_def bearer_request_def)

lemma TrimPrefix_Bearer: "TrimPrefix (''Bearer'' @ t) ''Bearer'' = t"
  by (simp add: TrimPrefix_def HasPrefix_def)

lemma HasPrefix_Bearer: "HasPrefix (''Bearer'' @ t) ''Bearer''"
  by (simp add: HasPrefix_def)

lemma JWTAuth_parsed:
  assumes "Header_Get r ''Authorization'' = ''Bearer'' @ t"
    and "ParseToken parse t secret = (Some claims, None)"
    and "claims ''user_id'' = Some userIDRaw"
    and "claims ''user_role'' = Some userRoleRaw"
  shows "JWTAuth parse secret nxt r =
           (case userIDRaw of
              JSONNumber f \<Rightarrow>
                (case userRoleRaw of
                   JSONString userRole \<Rightarrow>
                     nxt (r\<lparr>Ctx := (Ctx r)(UserIDKey \<mapsto> CtxInt (float64_to_int f),
                                             UserRoleKey \<mapsto> CtxString userRole)\<rparr>)
                 | _ \<Rightarrow> ([], Panicked ''interface conversion: interface {} is not string''))
            | _ \<Rightarrow> ([], Panicked ''interface conversion: interface {} is not float64''))"
proof -
  have p: "HasPrefix (Header_Get r ''Authorization'') ''Bearer''"
    unfolding assms(1) by (rule HasPrefix_Bearer)
  have tp: "TrimPrefix (Header_Get r ''Authorization'') ''Bearer'' = t"
    unfolding assms(1) by (rule TrimPrefix_Bearer)
  have ne: "Header_Get r ''Authorization'' \<noteq> []"
    unfolding assms(1) by simp
  show ?thesis
    using p tp ne assms(2-4) by (simp add: JWTAuth_def Let_def claims_get_def)
qed

text \<open>
  Whatever the verifier, a token it accepts whose \<^verbatim>\<open>user_id\<close> is not a number or whose
  \<^verbatim>\<open>user_role\<close> is not a string ends \<^verbatim>\<open>JWTAuth\<close> in a panic, with nothing written.
\<close>

lemma JWTAuth_malformed_claim_panics:
  assumes "Header_Get r ''Authorization'' = ''Bearer'' @ t"
    and "ParseToken parse t secret = (Some claims, None)"
    and "claims ''user_id'' = Some userIDRaw"
    and "claims ''user_role'' = Some userRoleRaw"
    and "(\<forall>f. userIDRaw \<noteq> JSONNumber f) \<or> (\<forall>s. userRoleRaw \<noteq> JSONString s)"
  shows "\<exists>msg. JWTAuth parse secret nxt r = ([], Panicked msg)"
  using assms(5) unfolding JWTAuth_parsed [OF assms(1-4)]
  by (cases userIDRaw; cases userRoleRaw) simp_all

lemma ParseToken_accepts_only:
  "CHR '' '' \<notin> set tok \<Longrightarrow> ParseToken (accepts_only tok key claims) tok key = (Some claims, None)"
  by (simp add: ParseToken_def accepts_only_def ReplaceAll_space_def filter_id_conv)

text \<open>
  C3. The claim asks for a 401 when a verified token carries a \<^verbatim>\<open>user_id\<close> that is not a
  number or a \<^verbatim>\<open>user_role\<close> that is not a string. On such tokens \<^verbatim>\<open>JWTAuth\<close> writes nothing
  and ends in the panic of its unchecked type assertion: first a token whose \<^verbatim>\<open>user_id\<close> is
  the string \<^verbatim>\<open>"42"\<close>, then one whose \<^verbatim>\<open>user_role\<close> is not a string.
\<close>

theorem JWTAuth_panics_on_malformed_claim_types:
  "JWTAuth (accepts_only ''h.p.s'' ''key'' [''user_id'' \<mapsto> JSONString ''42'', ''user_role'' \<mapsto> JSONString ''user''])
      ''key'' ok_handler (bearer_request ''Bearer h.p.s'')
     = ([], Panicked ''interface conversion: interface {} is not float64'')
   \<and> JWTAuth (accepts_only ''h.p.s'' ''key'' [''user_id'' \<mapsto> JSONNumber 42, ''user_role'' \<mapsto> JSONOther])
      ''key'' ok_handler (bearer_request ''Bearer h.p.s'')
     = ([], Panicked ''interface conversion: interface {} is not string'')"
  by (simp add: JWTAuth_def Let_def Header_Get_bearer TrimPrefix_def HasPrefix_def ParseToken_def
      ReplaceAll_space_def accepts_only_def claims_get_def)

text \<open>
  C10. \<^verbatim>\<open>JWTAuth\<close> authenticates a header made of \<^verbatim>\<open>Bearer\<close> immediately followed by a valid
  token \<open>t\<close>, with no space between: the next handler runs, with the user id and the role
  of the token in the request context. A token is valid when \<^verbatim>\<open>ParseToken\<close> accepts it and
  its claims hold a number as \<^verbatim>\<open>user_id\<close> and a string as \<^verbatim>\<open>user_role\<close>. \<^verbatim>\<open>ParseToken\<close>
  deletes every space of the string before parsing, and keeps any other character, other
  whitespace included.
\<close>

theorem JWTAuth_accepts_Bearer_without_space:
  assumes hdr: "Header r ''Authorization'' = Some (''Bearer'' @ t)"
    and tok: "ParseToken parse t secret = (Some claims, None)"
    and uid: "claims ''user_id'' = Some (JSONNumber f)"
    and role: "claims ''user_role'' = Some (JSONString userRole)"
  shows "JWTAuth parse secret nxt r =
           nxt (r\<lparr>Ctx := (Ctx r)(UserIDKey \<mapsto> CtxInt (float64_to_int f), UserRoleKey \<mapsto> CtxString userRole)\<rparr>)
       \<and> ParseToken parse (a @ CHR '' '' # b) secret = ParseToken parse (a @ b) secret
       \<and> (c \<noteq> CHR '' '' \<longrightarrow> ReplaceAll_space (a @ c # b) = ReplaceAll_space a @ c # ReplaceAll_space b)"
proof -
  from hdr have h: "Header_Get r ''Authorization'' = ''Bearer'' @ t"
    by (simp add: Header_Get_def)
  have 1: "JWTAuth parse secret nxt r =
           nxt (r\<lparr>Ctx := (Ctx r)(UserIDKey \<mapsto> CtxInt (float64_to_int f), UserRoleKey \<mapsto> CtxString userRole)\<rparr>)"
    by (simp add: JWTAuth_parsed [OF h tok uid role])
  have 2: "ParseToken parse (a @ CHR '' '' # b) secret = ParseToken parse (a @ b) secret"
    by (simp add: ParseToken_def ReplaceAll_space_def)
  have 3: "c \<noteq> CHR '' '' \<longrightarrow> ReplaceAll_space (a @ c # b) = ReplaceAll_space a @ c # ReplaceAll_space b"
    by (simp add: ReplaceAll_space_def)
  from 1 2 3 show ?thesis by blast
qed

theorem JWTAuth_accepts_Bearer_without_space_witness:
  "Header (bearer_request ''Bearerh.p.s'') ''Authorization'' = Some (''Bearer'' @ ''h.p.s'')
   \<and> ParseToken (accepts_only ''h.p.s'' ''key'' sample_claims) ''h.p.s'' ''key'' = (Some sample_claims, None)
   \<and> sample_claims ''user_id'' = Some (JSONNumber 42)
   \<and> sample_claims ''user_role'' = Some (JSONString ''user'')
   \<and> JWTAuth (accepts_only ''h.p.s'' ''key'' sample_claims) ''key'' ok_handler (bearer_request ''Bearerh.p.s'')
       = ([WriteHeader 200], Returned)"
proof -
  have h: "Header (bearer_request ''Bearerh.p.s'') ''Authorization'' = Some (''Bearer'' @ ''h.p.s'')"
    by (simp add: bearer_request_def)
  have t: "ParseToken (accepts_only ''h.p.s'' ''key'' sample_claims) ''h.p.s'' ''key'' = (Some sample_claims, None)"
    by (rule ParseToken_accepts_only) simp
  have u: "sample_claims ''user_id'' = Some (JSONNumber 42)"
    by (simp add: sample_claims_def)
  have ro: "sample_claims ''user_role'' = Some (JSONString ''user'')"
    by (simp add: sample_claims_def)
  from JWTAuth_accepts_Bearer_without_space [OF h t u ro, of ok_handler]
  have "JWTAuth (accepts_only ''h.p.s'' ''key'' sample_claims) ''key'' ok_handler (bearer_request ''Bearerh.p.s'')
          = ([WriteHeader 200], Returned)"
    by (simp add: ok_handler_def)
  with h t u ro show ?thesis by blast
qed

section \<open>Atomic transfer of pages\<close>

text \<open>
  C1. Once the transaction has begun, a failing mutation (the first \<^verbatim>\<open>UPDATE\<close>, or the second
  after the first went through) makes \<^verbatim>\<open>TransferPages\<close> return that error, never \<^verbatim>\<open>nil\<close>,
  and the whole table is as it was before the call: the transaction was rolled back, and
  the pages of the source book in particular are unchanged.
\<close>

theorem TransferPages_failed_update_rolls_back:
  assumes "Begin_err f = None"
    and "Exec1_err f = Some e \<or> (Exec1_err f = None \<and> Exec2_err f = Some e)"
  shows "TransferPages f db req = (db, Some e)
       \<and> fst (TransferPages f db req) (FromID req) = db (FromID req)
       \<and> snd (TransferPages f db req) \<noteq> None"
  using assms by (auto simp add: TransferPages_def resolve_tx_def Let_def)

theorem TransferPages_failed_update_rolls_back_witness:
  "Begin_err destination_fault = None
   \<and> Exec1_err destination_fault = None
   \<and> Exec2_err destination_fault = Some (DBError ''connection reset'')
   \<and> TransferPages destination_fault sample_books sample_transfer
       = (sample_books, Some (DBError ''connection reset''))
   \<and> fst (TransferPages destination_fault sample_books sample_transfer) 1 = Some 100"
proof -
  have b: "Begin_err destination_fault = None"
    by (simp add: destination_fault_def no_faults_def)
  have x: "Exec1_err destination_fault = Some (DBError ''connection reset'')
       \<or> (Exec1_err destination_fault = None
           \<and> Exec2_err destination_fault = Some (DBError ''connection reset''))"
    by (simp add: destination_fault_def no_faults_def)
  from TransferPages_failed_update_rolls_back [OF b x, of sample_books sample_transfer] b
  show ?thesis
    by (simp add: destination_fault_def no_faults_def sample_books_def sample_transfer_def)
qed

text \<open>
  When the store refuses the commit after two updates that went through, the call returns
  \<^verbatim>\<open>nil\<close> and nothing was applied.
\<close>

lemma TransferPages_refused_commit:
  assumes "Begin_err f = None" and "Exec1_err f = None" and "Exec2_err f = None"
    and "Commit_err f = Some e"
  shows "TransferPages f db req = (db, None)"
  using assms by (simp add: TransferPages_def resolve_tx_def Let_def)

lemma TransferPages_committed:
  assumes "TransferPages f db req = (db', None)" and "Commit_err f = None"
  shows "db' = update_pages (update_pages db (- Pages req) (FromID req)) (Pages req) (ToID req)"
  using assms by (auto simp add: TransferPages_def resolve_tx_def Let_def split: option.splits)

text \<open>
  Where the code keeps the invariant: between two books that are both in the table, and
  when the store accepts the commit, distinct books have the quantity moved exactly, a
  transfer of a book to itself changes nothing, and the sum of the two pages fields is the
  same before and after.
\<close>

lemma TransferPages_conserves_pages:
  assumes ok: "TransferPages f db req = (db', None)"
    and committed: "Commit_err f = None"
    and src: "db (FromID req) = Some a"
    and dst: "db (ToID req) = Some b"
  shows "(FromID req \<noteq> ToID req
            \<longrightarrow> db' (FromID req) = Some (a - Pages req) \<and> db' (ToID req) = Some (b + Pages req))
       \<and> (FromID req = ToID req \<longrightarrow> db' = db)
       \<and> (\<exists>a' b'. db' (FromID req) = Some a' \<and> db' (ToID req) = Some b' \<and> a' + b' = a + b)
       \<and> (\<forall>i. i \<noteq> FromID req \<and> i \<noteq> ToID req \<longrightarrow> db' i = db i)"
proof -
  note d = TransferPages_committed [OF ok committed]
  have 1: "FromID req \<noteq> ToID req
            \<longrightarrow> db' (FromID req) = Some (a - Pages req) \<and> db' (ToID req) = Some (b + Pages req)"
    using src dst by (simp add: d update_pages_def)
  have 2: "FromID req = ToID req \<longrightarrow> db' = db"
    using src dst by (auto simp add: d update_pages_def)
  have 3: "\<exists>a' b'. db' (FromID req) = Some a' \<and> db' (ToID req) = Some b' \<and> a' + b' = a + b"
  proof (cases "FromID req = ToID req")
    case True
    with 2 src dst show ?thesis by auto
  next
    case False
    with 1 show ?thesis by auto
  qed
  have 4: "\<forall>i. i \<noteq> FromID req \<and> i \<noteq> ToID req \<longrightarrow> db' i = db i"
    using src dst by (simp add: d update_pages_def)
  from 1 2 3 4 show ?thesis by blast
qed

text \<open>
  C2. The claim has, on every valid transfer on which \<^verbatim>\<open>TransferPages\<close> returns \<^verbatim>\<open>nil\<close>, the
  source decremented by the quantity, the destination incremented by it and the sum of the
  two kept. The code returns \<^verbatim>\<open>nil\<close> on valid transfers where none of that holds. First, a
  transfer of 30 pages from book 9, which is not in the table, to book 2: the first
  \<^verbatim>\<open>UPDATE\<close> matches no row and reports no error, the result that would tell so is dropped,
  book 2 goes from 50 to 80 pages and no book lost any. Second, a transfer of 30 pages from
  book 1 to book 2 whose commit the store refuses: the error of \<^verbatim>\<open>tx.Commit()\<close> does not
  reach the result, and books 1 and 2 still have 100 and 50 pages.
\<close>

theorem TransferPages_nil_without_transfer:
  "validateTransferRequest missing_source_transfer = None
   \<and> sample_books (FromID missing_source_transfer) = None
   \<and> sample_books (ToID missing_source_transfer) = Some 50
   \<and> TransferPages no_faults sample_books missing_source_transfer = ([1 \<mapsto> 100, 2 \<mapsto> 80], None)
   \<and> validateTransferRequest sample_transfer = None
   \<and> sample_books (FromID sample_transfer) = Some 100
   \<and> sample_books (ToID sample_transfer) = Some 50
   \<and> TransferPages commit_fault sample_books sample_transfer = (sample_books, None)"
proof -
  have 1: "TransferPages no_faults sample_books missing_source_transfer = ([1 \<mapsto> 100, 2 \<mapsto> 80], None)"
    by (auto simp add: TransferPages_def resolve_tx_def no_faults_def sample_books_def
        missing_source_transfer_def update_pages_def)
  have 2: "TransferPages commit_fault sample_books sample_transfer = (sample_books, None)"
    by (simp add: TransferPages_def resolve_tx_def commit_fault_def no_faults_def)
  from 1 2 show ?thesis
    by (simp add: validateTransferRequest_def missing_source_transfer_def sample_transfer_def
        sample_books_def)
qed

section \<open>Rate limiter window\<close>

lemma time_Since_within: "now - t \<le> limitWindow \<Longrightarrow> \<not> limitWindow < time_Since now t"
  by (simp add: time_Since_def limitWindow_def minInt_def maxInt_def)

lemma time_Since_elapsed: "limitWindow < now - t \<Longrightarrow> limitWindow < time_Since now t"
  by (simp add: time_Since_def limitWindow_def minInt_def maxInt_def)

lemma wrap_int_id: "0 \<le> x \<Longrightarrow> x \<le> maxInt \<Longrightarrow> wrap_int x = x"
  by (simp add: wrap_int_def maxInt_def)

lemma RateLimit_opens_window:
  assumes "RemoteAddr r = ip"
    and "vs ip = None \<or> (\<exists>e. vs ip = Some e \<and> limitWindow < t_since - LastSeen e)"
  shows "RateLimit nxt t_since t_now r vs = (vs(ip \<mapsto> \<lparr>LastSeen = t_now, Count = 1\<rparr>), nxt r)"
  using assms by (auto simp add: RateLimit_def Let_def time_Since_elapsed)

lemma RateLimit_counts:
  assumes "RemoteAddr r = ip"
    and "vs ip = Some e"
    and "t_since - LastSeen e \<le> limitWindow"
    and "0 \<le> Count e" and "Count e < maxInt"
  shows "RateLimit nxt t_since t_now r vs =
           (vs(ip \<mapsto> \<lparr>LastSeen = t_now, Count = Count e + 1\<rparr>),
            if requestCap < Count e + 1 then too_many else nxt r)"
  using assms by (cases e) (simp add: RateLimit_def Let_def time_Since_within wrap_int_id too_many_def)

lemma RateLimit_all_in_window:
  assumes "vs ip = Some e"
    and "0 \<le> Count e"
    and "Count e + int (length reqs) \<le> maxInt"
    and "t0 \<le> LastSeen e"
    and "in_window ip t0 reqs"
  shows "snd (RateLimit_all nxt reqs vs) =
           map (\<lambda>(t_since, t_now, r). nxt r) (take (nat (requestCap - Count e)) reqs)
           @ replicate (length reqs - nat (requestCap - Count e)) too_many
       \<and> map_option Count (fst (RateLimit_all nxt reqs vs) ip) = Some (Count e + int (length reqs))"
  using assms
proof (induction reqs arbitrary: vs e)
  case Nil
  then show ?case by simp
next
  case (Cons q reqs)
  obtain t_since t_now r where q: "q = (t_since, t_now, r)"
    by (cases q)
  from Cons.prems(5) have here: "RemoteAddr r = ip" "t0 \<le> t_since" "t_since \<le> t_now"
      "t_now \<le> t0 + limitWindow" and rest: "in_window ip t0 reqs"
    by (simp_all add: in_window_def q)
  let ?e' = "\<lparr>LastSeen = t_now, Count = Count e + 1\<rparr>"
  let ?vs' = "vs(ip \<mapsto> ?e')"
  have gap: "t_since - LastSeen e \<le> limitWindow"
    using here Cons.prems(4) by simp
  have below: "Count e < maxInt"
    using Cons.prems(3) by simp
  have step: "RateLimit nxt t_since t_now r vs =
                (?vs', if requestCap < Count e + 1 then too_many else nxt r)"
    using here(1) Cons.prems(1) gap Cons.prems(2) below by (rule RateLimit_counts)
  have ih: "snd (RateLimit_all nxt reqs ?vs') =
              map (\<lambda>(t_since, t_now, r). nxt r) (take (nat (requestCap - Count ?e')) reqs)
              @ replicate (length reqs - nat (requestCap - Count ?e')) too_many
          \<and> map_option Count (fst (RateLimit_all nxt reqs ?vs') ip) = Some (Count ?e' + int (length reqs))"
  proof (rule Cons.IH)
    show "?vs' ip = Some ?e'" by simp
    show "0 \<le> Count ?e'" using Cons.prems(2) by simp
    show "Count ?e' + int (length reqs) \<le> maxInt" using Cons.prems(3) by simp
    show "t0 \<le> LastSeen ?e'" using here by simp
    show "in_window ip t0 reqs" by (rule rest)
  qed
  show ?case
  proof (cases "requestCap < Count e + 1")
    case True
    then have z: "nat (requestCap - Count e) = 0" "nat (requestCap - (Count e + 1)) = 0"
      by simp_all
    from ih True show ?thesis
      by (auto simp add: q step z case_prod_beta)
  next
    case False
    then have s: "nat (requestCap - Count e) = Suc (nat (requestCap - (Count e + 1)))"
      by simp
    from ih False show ?thesis
      by (auto simp add: q step s case_prod_beta)
  qed
qed

text \<open>
  C5. A client \<open>ip\<close> sends a request that opens a window (the table has no entry for \<open>ip\<close>,
  or more than 60 seconds have passed since the entry's last-seen time): it is admitted and
  the stored count is reset to 1, whatever it was. The requests \<open>rest\<close> that the client
  sends next within that window are admitted as long as they are among the first 60 of the
  window, and each later one is rejected with status 429 \<^verbatim>\<open>Rate limit exceeded\<close>. So of
  exactly 60 requests in a window all are admitted, and of 61 the last is rejected.
\<close>

theorem RateLimit_window:
  assumes ip: "RemoteAddr r0 = ip"
    and opens: "vs ip = None \<or> (\<exists>e. vs ip = Some e \<and> limitWindow < ts0 - LastSeen e)"
    and win: "in_window ip t0 rest"
    and len: "int (length rest) < maxInt"
  shows "RateLimit nxt ts0 t0 r0 vs = (vs(ip \<mapsto> \<lparr>LastSeen = t0, Count = 1\<rparr>), nxt r0)
       \<and> snd (RateLimit_all nxt ((ts0, t0, r0) # rest) vs) =
           map (\<lambda>(t_since, t_now, r). nxt r) (take 60 ((ts0, t0, r0) # rest))
           @ replicate (Suc (length rest) - 60)
               ([HeaderSet ''Content-Type'' ''application/json'', WriteHeader 429,
                 EncodeErrorResponse ''Too Many Requests'' ''Rate limit exceeded''], Returned)
       \<and> map_option Count (fst (RateLimit_all nxt ((ts0, t0, r0) # rest) vs) ip)
           = Some (1 + int (length rest))"
proof -
  let ?e = "\<lparr>LastSeen = t0, Count = 1\<rparr>"
  let ?vs = "vs(ip \<mapsto> ?e)"
  have first: "RateLimit nxt ts0 t0 r0 vs = (?vs, nxt r0)"
    using ip opens by (rule RateLimit_opens_window)
  have "snd (RateLimit_all nxt rest ?vs) =
           map (\<lambda>(t_since, t_now, r). nxt r) (take (nat (requestCap - Count ?e)) rest)
           @ replicate (length rest - nat (requestCap - Count ?e)) too_many
       \<and> map_option Count (fst (RateLimit_all nxt rest ?vs) ip) = Some (Count ?e + int (length rest))"
  proof (rule RateLimit_all_in_window)
    show "?vs ip = Some ?e" by simp
    show "0 \<le> Count ?e" by simp
    show "Count ?e + int (length rest) \<le> maxInt" using len by simp
    show "t0 \<le> LastSeen ?e" by simp
    show "in_window ip t0 rest" by (rule win)
  qed
  then have rest: "snd (RateLimit_all nxt rest ?vs) =
           map (\<lambda>(t_since, t_now, r). nxt r) (take 59 rest) @ replicate (length rest - 59) too_many"
      and cnt: "map_option Count (fst (RateLimit_all nxt rest ?vs) ip) = Some (1 + int (length rest))"
    by (simp_all add: requestCap_def)
  have t60: "take 60 ((ts0, t0, r0) # rest) = (ts0, t0, r0) # take 59 rest"
    by (simp add: take_Cons')
  have tm: "too_many = ([HeaderSet ''Content-Type'' ''application/json'', WriteHeader 429,
                 EncodeErrorResponse ''Too Many Requests'' ''Rate limit exceeded''], Returned)"
    by (simp add: too_many_def WriteSafeError_def StatusText_def status_texts_def)
  have all: "snd (RateLimit_all nxt ((ts0, t0, r0) # rest) vs) =
           map (\<lambda>(t_since, t_now, r). nxt r) (take 60 ((ts0, t0, r0) # rest))
           @ replicate (Suc (length rest) - 60) too_many"
    using rest by (simp add: first t60 case_prod_beta)
  have cnt': "map_option Count (fst (RateLimit_all nxt ((ts0, t0, r0) # rest) vs) ip)
           = Some (1 + int (length rest))"
    using cnt by (auto simp add: first case_prod_beta)
  from first all cnt' show ?thesis
    unfolding tm by blast
qed

theorem RateLimit_window_witness:
  "RemoteAddr anonymous_request = ''10.0.0.1:5000''
   \<and> (Map.empty :: visitors) ''10.0.0.1:5000'' = None
   \<and> in_window ''10.0.0.1:5000'' 0 (replicate 60 (1::int, 2::int, anonymous_request))
   \<and> snd (RateLimit_all ok_handler ((0::int, 0::int, anonymous_request) # replicate 60 (1::int, 2::int, anonymous_request))
            Map.empty)
       = replicate 60 ([WriteHeader 200], Returned)
         @ [([HeaderSet ''Content-Type'' ''application/json'', WriteHeader 429,
              EncodeErrorResponse ''Too Many Requests'' ''Rate limit exceeded''], Returned)]"
proof -
  have a: "RemoteAddr anonymous_request = ''10.0.0.1:5000''"
    by (simp add: anonymous_request_def)
  have o: "(Map.empty :: visitors) ''10.0.0.1:5000'' = None
           \<or> (\<exists>e. (Map.empty :: visitors) ''10.0.0.1:5000'' = Some e \<and> limitWindow < 0 - LastSeen e)"
    by simp
  have w: "in_window ''10.0.0.1:5000'' 0 (replicate 60 (1::int, 2::int, anonymous_request))"
    by (simp add: in_window_def list_all_iff a limitWindow_def)
  have l: "int (length (replicate 60 (1::int, 2::int, anonymous_request))) < maxInt"
    by (simp add: maxInt_def)
  have s: "snd (RateLimit_all ok_handler ((0::int, 0::int, anonymous_request) # replicate 60 (1::int, 2::int, anonymous_request))
                Map.empty)
           = map (\<lambda>(t_since, t_now, r). ok_handler r)
               (take 60 ((0::int, 0::int, anonymous_request) # replicate 60 (1::int, 2::int, anonymous_request)))
             @ replicate (Suc (length (replicate 60 (1::int, 2::int, anonymous_request))) - 60)
                 ([HeaderSet ''Content-Type'' ''application/json'', WriteHeader 429,
                   EncodeErrorResponse ''Too Many Requests'' ''Rate limit exceeded''], Returned)"
    using RateLimit_window [OF a o w l, of ok_handler] by blast
  have e: "map (\<lambda>(t_since, t_now, r). ok_handler r)
               (take 60 ((0::int, 0::int, anonymous_request) # replicate 60 (1::int, 2::int, anonymous_request)))
             @ replicate (Suc (length (replicate 60 (1::int, 2::int, anonymous_request))) - 60)
                 ([HeaderSet ''Content-Type'' ''application/json'', WriteHeader 429,
                   EncodeErrorResponse ''Too Many Requests'' ''Rate limit exceeded''], Returned)
           = replicate 60 ([WriteHeader 200], Returned)
             @ [([HeaderSet ''Content-Type'' ''application/json'', WriteHeader 429,
                  EncodeErrorResponse ''Too Many Requests'' ''Rate limit exceeded''], Returned)]"
  proof -
    have r: "replicate 60 ([WriteHeader 200], Returned)
             = ([WriteHeader 200], Returned) # replicate 59 ([WriteHeader 200], Returned)"
      by (simp add: replicate_Suc [symmetric] del: replicate_Suc)
    show ?thesis
      by (simp add: take_Cons' ok_handler_def r)
  qed
  have "snd (RateLimit_all ok_handler ((0::int, 0::int, anonymous_request) # replicate 60 (1::int, 2::int, anonymous_request))
                Map.empty)
           = replicate 60 ([WriteHeader 200], Returned)
             @ [([HeaderSet ''Content-Type'' ''application/json'', WriteHeader 429,
                  EncodeErrorResponse ''Too Many Requests'' ''Rate limit exceeded''], Returned)]"
    using s e by (rule trans)
  with a w show ?thesis by blast
qed

section \<open>Composition order\<close>

lemma applyMiddleware_loop_take:
  "k \<le> length ms \<Longrightarrow> applyMiddleware_loop h ms k = foldr (\<lambda>m g. m g) (take k ms) h"
proof (induction k arbitrary: h)
  case 0
  then show ?case by simp
next
  case (Suc k)
  then have "take (Suc k) ms = take k ms @ [ms ! k]"
    by (simp add: take_Suc_conv_app_nth)
  with Suc show ?case by simp
qed

lemma applyMiddleware_foldr: "applyMiddleware h ms = foldr (\<lambda>m g. m g) ms h"
  by (simp add: applyMiddleware_def applyMiddleware_loop_take)

lemma marking_stages_order:
  "snd (h r) = Returned \<Longrightarrow>
   foldr (\<lambda>m g. m g) (map marking_stage names) h r =
     (map (\<lambda>n. LogPrintf ''in'' [n]) names @ fst (h r) @ rev (map (\<lambda>n. LogPrintf ''out'' [n]) names),
      Returned)"
  by (induction names) (simp_all add: marking_stage_def prod_eq_iff)

text \<open>
  C8. \<^verbatim>\<open>Apply\<close> wraps a handler with request logging outermost, then panic recovery, then
  CORS header injection, then user-agent logging, the handler itself innermost.
  \<^verbatim>\<open>applyMiddleware\<close> composes any list of stages so that the first stage listed wraps the
  composition of the others: with stages that log on the way in and on the way out around a
  handler that returns, the stages are entered in the order of the list, then the handler
  runs, then the stages are left in the reverse order.
\<close>

theorem Apply_order:
  "Apply h = requestLoggingMiddleware (recoveryMiddleware (corsMiddleware (userAgentLogMiddleware h)))
   \<and> applyMiddleware h [] = h
   \<and> applyMiddleware h (m # ms) = m (applyMiddleware h ms)
   \<and> (snd (h r) = Returned \<longrightarrow>
        applyMiddleware h (map marking_stage names) r =
          (map (\<lambda>n. LogPrintf ''in'' [n]) names @ fst (h r)
             @ rev (map (\<lambda>n. LogPrintf ''out'' [n]) names), Returned))"
  by (simp add: Apply_def applyMiddleware_foldr marking_stages_order)

theorem Apply_order_witness:
  "snd (ok_handler anonymous_request) = Returned
   \<and> applyMiddleware ok_handler [marking_stage ''first'', marking_stage ''second''] anonymous_request
       = ([LogPrintf ''in'' [''first''], LogPrintf ''in'' [''second''], WriteHeader 200,
           LogPrintf ''out'' [''second''], LogPrintf ''out'' [''first'']], Returned)
   \<and> Apply ok_handler anonymous_request
       = ([LogPrintf ''Started HTTP Request %s %s'' [''PUT'', ''/books/7''],
           HeaderSet ''Access-Control-Allow-Origin'' ''*'',
           HeaderSet ''Access-Control-Allow-Methods'' ''GET, POST, PUT, DELETE, OPTIONS'',
           HeaderSet ''Access-Control-Allow-Headers'' ''Content-Type'',
           LogPrintf ''User-Agent: %s'' [''''],
           WriteHeader 200,
           LogPrintf (''Completed %s %s in %v '' @ [CHR 0x0A, CHR 0x0A]) [''PUT'', ''/books/7'']], Returned)"
proof -
  have h: "snd (ok_handler anonymous_request) = Returned"
    by (simp add: ok_handler_def)
  have 1: "applyMiddleware ok_handler [marking_stage ''first'', marking_stage ''second''] anonymous_request
       = ([LogPrintf ''in'' [''first''], LogPrintf ''in'' [''second''], WriteHeader 200,
           LogPrintf ''out'' [''second''], LogPrintf ''out'' [''first'']], Returned)"
    using Apply_order [of ok_handler corsMiddleware "[]" anonymous_request "[''first'', ''second'']"] h
    by (simp add: ok_handler_def)
  have 2: "Apply ok_handler anonymous_request
       = ([LogPrintf ''Started HTTP Request %s %s'' [''PUT'', ''/books/7''],
           HeaderSet ''Access-Control-Allow-Origin'' ''*'',
           HeaderSet ''Access-Control-Allow-Methods'' ''GET, POST, PUT, DELETE, OPTIONS'',
           HeaderSet ''Access-Control-Allow-Headers'' ''Content-Type'',
           LogPrintf ''User-Agent: %s'' [''''],
           WriteHeader 200,
           LogPrintf (''Completed %s %s in %v '' @ [CHR 0x0A, CHR 0x0A]) [''PUT'', ''/books/7'']], Returned)"
    using Apply_order [of ok_handler corsMiddleware "[]" anonymous_request "[]"]
    by (simp add: requestLoggingMiddleware_def recoveryMiddleware_def corsMiddleware_def
        userAgentLogMiddleware_def after_def ok_handler_def anonymous_request_def Header_Get_def)
  from h 1 2 show ?thesis by blast
qed

section \<open>Token round trip\<close>
























end
